theory Spec2Isabelle
  imports Main "HOL-Library.Sublist"
begin

section \<open>Strings of the Python runtime\<close>

text \<open>
  A Python \<^verbatim>\<open>str\<close> is modelled as a \<^typ>\<open>string\<close>, one \<^typ>\<open>char\<close> per code point
  (code points below 256). The functions of this section are the string methods that
  \<^verbatim>\<open>nlq.py\<close> calls: \<^verbatim>\<open>sep.join(xs)\<close>, \<^verbatim>\<open>s.split("\n")\<close> and
  \<^verbatim>\<open>s.replace(old, new)\<close>.
\<close>

abbreviation NL :: char where
  "NL \<equiv> CHR 0x0A"

text \<open>\<^verbatim>\<open>sep.join(xs)\<close>: the elements of \<open>xs\<close> with \<open>sep\<close> between neighbours.\<close>

fun str_join :: "string \<Rightarrow> string list \<Rightarrow> string" where
  "str_join sep [] = []"
| "str_join sep [x] = x"
| "str_join sep (x # y # ys) = x @ sep @ str_join sep (y # ys)"

text \<open>
  \<^verbatim>\<open>s.split(c)\<close> for a separator of one character, the only form the source uses
  (\<^verbatim>\<open>sql.split("\n")\<close>): the pieces between the occurrences of \<open>c\<close>; the empty string
  splits into one empty piece.
\<close>

fun extend_first :: "char \<Rightarrow> string list \<Rightarrow> string list" where
  "extend_first x [] = [[x]]"
| "extend_first x (l # ls) = (x # l) # ls"

fun str_split :: "char \<Rightarrow> string \<Rightarrow> string list" where
  "str_split c [] = [[]]"
| "str_split c (x # xs) =
     (if x = c then [] # str_split c xs else extend_first x (str_split c xs))"

text \<open>
  \<^verbatim>\<open>s.replace(old, new)\<close>: the occurrences of \<open>old\<close> are replaced from left to right
  without overlap; an empty \<open>old\<close> matches before every character and at the end.
\<close>

function str_replace :: "string \<Rightarrow> string \<Rightarrow> string \<Rightarrow> string" where
  "str_replace old new s =
     (if old = [] then new @ concat (map (\<lambda>c. c # new) s)
      else if s = [] then []
      else if prefix old s then new @ str_replace old new (drop (length old) s)
      else hd s # str_replace old new (tl s))"
  by pat_completeness auto
termination
  by (relation "measure (\<lambda>(old, new, s). length s)") auto

declare str_replace.simps [simp del]

section \<open>Schema metadata\<close>

text \<open>
  The default value of a column is \<^verbatim>\<open>None | int | float | str\<close>. No operation of the
  program looks inside it, so floating-point numbers stay an opaque type.
\<close>

typedecl pyfloat

datatype dflt = DNone | DInt int | DFloat pyfloat | DStr string

text \<open>The dataclass \<^verbatim>\<open>ColumnInfo\<close>, field by field.\<close>

record ColumnInfo =
  cid :: int
  name :: string
  type :: string
  notnull :: int
  dflt_value :: dflt
  pk :: int

text \<open>
  \<^verbatim>\<open>ColumnInfo.format(self, desc=None)\<close>. The flag \<open>notnull\<close> is an integer and is true
  when it is not zero; \<^verbatim>\<open>if desc\<close> is false for \<^verbatim>\<open>None\<close> and for the empty string.
\<close>

definition ColumnInfo_format :: "ColumnInfo \<Rightarrow> string option \<Rightarrow> string" where
  "ColumnInfo_format self desc =
     (let null = (if notnull self \<noteq> 0 then ''NOTNULL'' else ''NULLABLE'');
          descs = (case desc of
                     None \<Rightarrow> []
                   | Some d \<Rightarrow> if d \<noteq> [] then [''description:'', d] else [])
      in str_join '' '' ([name self, type self, null] @ descs))"

text \<open>The dataclass \<^verbatim>\<open>TableInfo\<close>.\<close>

record TableInfo =
  columns :: "ColumnInfo list"

text \<open>
  \<^verbatim>\<open>TableInfo.format(self, desc_dict)\<close>; the dictionary is a map and
  \<^verbatim>\<open>desc_dict.get(column.name)\<close> is its application.
\<close>

definition TableInfo_format :: "TableInfo \<Rightarrow> (string \<rightharpoonup> string) \<Rightarrow> string" where
  "TableInfo_format self desc_dict =
     str_join [NL] (map (\<lambda>column. ColumnInfo_format column (desc_dict (name column)))
                        (columns self))"

text \<open>
  A row of \<^verbatim>\<open>PRAGMA table_info\<close>, typed as the annotation of \<^verbatim>\<open>from_rows\<close> has it, and
  \<^verbatim>\<open>TableInfo.from_rows\<close>, which builds one \<^verbatim>\<open>ColumnInfo(*row)\<close> per row.
\<close>

type_synonym row = "int \<times> string \<times> string \<times> int \<times> dflt \<times> int"

definition TableInfo_from_rows :: "row list \<Rightarrow> TableInfo" where
  "TableInfo_from_rows rows =
     \<lparr>columns = map (\<lambda>(c, n, t, nn, d, p).
        \<lparr>cid = c, name = n, type = t, notnull = nn, dflt_value = d, pk = p\<rparr>) rows\<rparr>"

section \<open>Errors\<close>

text \<open>
  The exceptions that can leave the program: the three that \<^verbatim>\<open>str.format\<close> raises on a
  question text, whatever the database connection raises, and whatever a remote
  completion call raises (transport, authentication, or a response without the
  expected field). The program has no \<^verbatim>\<open>try\<close> statement.
\<close>

datatype error =
    ValueError
  | IndexError
  | KeyError string
  | DatabaseError string
  | RemoteError string

section \<open>\<^verbatim>\<open>str.format\<close> and \<^verbatim>\<open>textwrap.dedent\<close>\<close>

text \<open>
  \<^verbatim>\<open>make_prompt\<close> calls \<^verbatim>\<open>query.format("\n", "\n# ")\<close>, so the question is read as a
  format string. The model follows CPython's left-to-right scan: text up to the next
  brace is copied, a doubled brace stands for one brace, a single closing brace is a
  \<^verbatim>\<open>ValueError\<close>, and an opening brace starts a replacement field. A field with an empty
  name takes the next positional argument, a field whose name is a decimal number takes
  the argument of that index, and any other name is looked up among the keyword
  arguments, of which there are none (\<^verbatim>\<open>KeyError\<close>). Automatic and explicit numbering
  cannot be mixed. The counter of automatic numbering and its mode are the state of the
  scan.

  A field can also ask for an attribute or an item of the argument, for a conversion or
  for a format specification (its text then holds one of \<^verbatim>\<open>. [ ! :\<close>). What Python makes
  of the format string from such a field onwards is not modelled: it is the parameter
  \<open>ext\<close>, a function of the arguments, the numbering state and the remaining text, and
  every theorem holds for every \<open>ext\<close>.
\<close>

datatype an_state = ANS_INIT | ANS_AUTO | ANS_MANUAL

type_synonym field_ext = "string list \<Rightarrow> an_state \<Rightarrow> nat \<Rightarrow> string \<Rightarrow> error + string"

definition is_digit :: "char \<Rightarrow> bool" where
  "is_digit c = (c \<in> set ''0123456789'')"

definition get_integer :: "string \<Rightarrow> int" where
  "get_integer s = foldl (\<lambda>acc c. 10 * acc + (of_char c - 48)) 0 s"

text \<open>The largest index of a 64-bit build; a longer number is a \<^verbatim>\<open>ValueError\<close>.\<close>

definition PY_SSIZE_T_MAX :: int where
  "PY_SSIZE_T_MAX = 9223372036854775807"

definition field_name_char :: "char \<Rightarrow> bool" where
  "field_name_char c = (c \<notin> set ''{}[:!.'')"

text \<open>Prepending already rendered text to the outcome of the rest of the scan.\<close>

fun emit :: "string \<Rightarrow> error + string \<Rightarrow> error + string" where
  "emit t (Inl e) = Inl e"
| "emit t (Inr r) = Inr (t @ r)"

function markup :: "field_ext \<Rightarrow> string list \<Rightarrow> an_state \<Rightarrow> nat \<Rightarrow> string \<Rightarrow> error + string" where
  "markup ext args st k [] = Inr []"
| "markup ext args st k (c # s) =
     (if c = CHR ''}'' then
        (if s \<noteq> [] \<and> hd s = CHR ''}'' then emit ''}'' (markup ext args st k (tl s))
         else Inl ValueError)
      else if c = CHR ''{'' then
        (if s = [] then Inl ValueError
         else if hd s = CHR ''{'' then emit ''{'' (markup ext args st k (tl s))
         else
           (let fname = takeWhile field_name_char s; rest = dropWhile field_name_char s in
            if rest = [] then Inl ValueError
            else if hd rest = CHR ''{'' then Inl ValueError
            else if hd rest \<noteq> CHR ''}'' then ext args st k (c # s)
            else if fname = [] then
              (if st = ANS_MANUAL then Inl ValueError
               else if k < length args
                 then emit (args ! k) (markup ext args ANS_AUTO (Suc k) (tl rest))
               else Inl IndexError)
            else if list_all is_digit fname then
              (if PY_SSIZE_T_MAX < get_integer fname then Inl ValueError
               else if st = ANS_AUTO then Inl ValueError
               else if get_integer fname < int (length args)
                 then emit (args ! nat (get_integer fname))
                        (markup ext args ANS_MANUAL k (tl rest))
               else Inl IndexError)
            else Inl (KeyError fname)))
      else emit [c] (markup ext args st k s))"
  by pat_completeness auto
termination
proof (relation "measure (\<lambda>(ext, args, st, k, s). length s)")
  show "wf (measure (\<lambda>(ext, args, st, k, s). length s))"
    by simp
next
  fix ext :: field_ext and args :: "string list" and st :: an_state and k :: nat
    and c :: char and s :: string
  assume "s \<noteq> [] \<and> hd s = CHR ''}''"
  then show "((ext, args, st, k, tl s), (ext, args, st, k, c # s))
      \<in> measure (\<lambda>(ext, args, st, k, s). length s)"
    by simp
next
  fix ext :: field_ext and args :: "string list" and st :: an_state and k :: nat
    and c :: char and s :: string
  show "((ext, args, st, k, tl s), (ext, args, st, k, c # s))
      \<in> measure (\<lambda>(ext, args, st, k, s). length s)"
    by simp
next
  fix ext :: field_ext and args :: "string list" and st :: an_state and k :: nat
    and c :: char and s fname rest :: string
  assume "rest = dropWhile field_name_char s"
  moreover have "length (tl (dropWhile field_name_char s)) \<le> length s"
    using length_dropWhile_le[of field_name_char s] by simp
  ultimately show "((ext, args, ANS_AUTO, Suc k, tl rest), (ext, args, st, k, c # s))
      \<in> measure (\<lambda>(ext, args, st, k, s). length s)"
    by simp
next
  fix ext :: field_ext and args :: "string list" and st :: an_state and k :: nat
    and c :: char and s fname rest :: string
  assume "rest = dropWhile field_name_char s"
  moreover have "length (tl (dropWhile field_name_char s)) \<le> length s"
    using length_dropWhile_le[of field_name_char s] by simp
  ultimately show "((ext, args, ANS_MANUAL, k, tl rest), (ext, args, st, k, c # s))
      \<in> measure (\<lambda>(ext, args, st, k, s). length s)"
    by simp
next
  fix ext :: field_ext and args :: "string list" and st :: an_state and k :: nat
    and c :: char and s :: string
  show "((ext, args, st, k, s), (ext, args, st, k, c # s))
      \<in> measure (\<lambda>(ext, args, st, k, s). length s)"
    by simp
qed

definition str_format :: "field_ext \<Rightarrow> string \<Rightarrow> string list \<Rightarrow> error + string" where
  "str_format ext s args = markup ext args ANS_INIT 0 s"

text \<open>
  \<^verbatim>\<open>textwrap.dedent\<close> (the implementation of Python 3.10 to 3.13). Lines that hold only
  blanks and tabs become empty; the margin is the longest run of leading blanks and tabs
  common to the lines that are left non-empty, found by the three-way comparison of the
  library's loop; a non-empty margin is removed from the start of every line that
  begins with it.
\<close>

definition is_blank :: "char \<Rightarrow> bool" where
  "is_blank c = (c = CHR '' '' \<or> c = CHR 0x09)"

fun common_prefix :: "string \<Rightarrow> string \<Rightarrow> string" where
  "common_prefix (x # xs) (y # ys) = (if x = y then x # common_prefix xs ys else [])"
| "common_prefix xs ys = []"

definition margin_step :: "string option \<Rightarrow> string \<Rightarrow> string option" where
  "margin_step margin indent =
     (case margin of
        None \<Rightarrow> Some indent
      | Some m \<Rightarrow>
          if prefix m indent then Some m
          else if prefix indent m then Some indent
          else Some (common_prefix m indent))"

definition strip_margin :: "string \<Rightarrow> string \<Rightarrow> string" where
  "strip_margin m l = (if prefix m l then drop (length m) l else l)"

definition dedent :: "string \<Rightarrow> string" where
  "dedent text =
     (let lines = map (\<lambda>l. if l \<noteq> [] \<and> list_all is_blank l then [] else l)
                      (str_split NL text);
          indents = map (takeWhile is_blank) (filter (\<lambda>l. l \<noteq> []) lines);
          margin = foldl margin_step None indents
      in case margin of
           None \<Rightarrow> str_join [NL] lines
         | Some m \<Rightarrow>
             if m = [] then str_join [NL] lines
             else str_join [NL] (map (strip_margin m) lines))"

section \<open>The database connection and the remote service\<close>

text \<open>
  The connection is an external collaborator, so it is a stub: what it answers to a
  statement, and a log of the statements that were submitted to it through
  \<^verbatim>\<open>cursor.execute\<close>, oldest first. The log is the only part of it that an operation
  changes. The answers are typed as the program reads them: the catalog query is read
  as a list of names (\<^verbatim>\<open>row[0]\<close> of every row), the per-table query as six-column rows,
  and the final statement only for whether it raises. \<open>cursor_fails\<close> is the outcome of
  \<^verbatim>\<open>conn.cursor()\<close>.
\<close>

record connection =
  cursor_fails :: "error option"
  names_result :: "string \<Rightarrow> error + string list"
  rows_result :: "string \<Rightarrow> error + row list"
  raises :: "string \<Rightarrow> error option"
  executed :: "string list"

text \<open>What \<^verbatim>\<open>cursor.execute(sql)\<close> returns: the cursor, which has run that statement.\<close>

datatype cursor = Cursor string

text \<open>
  The remote service stands for the two endpoints of the \<^verbatim>\<open>openai\<close> module. A request
  is either the chat completion (model and messages, each a role and a content) or the
  plain completion (model, prompt, \<^verbatim>\<open>max_tokens\<close> and stop sequences; the sampling
  parameters are constants of the call and are left out). \<open>respond\<close> gives, for a
  request, the error that the call or the reading of its response raises, or else the
  text that the program reads from the response
  (\<^verbatim>\<open>res["choices"][0]["message"]["content"]\<close>, \<^verbatim>\<open>res["choices"][0]["text"]\<close>). Extra
  arguments that a caller passes through are part of the stub. \<open>requests\<close> logs the
  calls, oldest first, and \<open>key\<close> is the module-wide \<^verbatim>\<open>openai.api_key\<close>.
\<close>

datatype request =
    ChatCompletion string "(string \<times> string) list"
  | Completion string string nat "string list"

record service =
  respond :: "request \<Rightarrow> error + string"
  requests :: "request list"
  key :: "string option"

section \<open>The class \<^verbatim>\<open>SQlite\<close>\<close>

record SQlite =
  conn :: connection
  column_descriptions :: "(string \<rightharpoonup> (string \<rightharpoonup> string)) option"
  api_key :: "string option"

text \<open>
  \<^verbatim>\<open>__post_init__\<close>: \<^verbatim>\<open>self.api_key or os.getenv("OPENAI_API_KEY")\<close> becomes the key of
  the module; \<open>env\<close> is the value of the environment variable. A key that is \<^verbatim>\<open>None\<close> or
  empty is false.
\<close>

definition post_init :: "string option \<Rightarrow> SQlite \<Rightarrow> service \<Rightarrow> service" where
  "post_init env self svc =
     svc\<lparr>key := (case api_key self of
                     None \<Rightarrow> env
                   | Some k \<Rightarrow> if k \<noteq> [] then Some k else env)\<rparr>"

text \<open>\<^verbatim>\<open>get_cursor\<close> returns a fresh cursor or raises what \<^verbatim>\<open>conn.cursor()\<close> raises.\<close>

definition get_cursor :: "SQlite \<Rightarrow> error + unit" where
  "get_cursor self = (case cursor_fails (conn self) of Some e \<Rightarrow> Inl e | None \<Rightarrow> Inr ())"

text \<open>Submitting a statement to a cursor appends it to the log of the connection.\<close>

definition submit :: "string \<Rightarrow> SQlite \<Rightarrow> SQlite" where
  "submit q self = self\<lparr>conn := (conn self)\<lparr>executed := executed (conn self) @ [q]\<rparr>\<rparr>"

definition catalog_query :: string where
  "catalog_query = ''SELECT name FROM sqlite_master WHERE type = \"table\"''"

definition table_names :: "SQlite \<Rightarrow> (error + string list) \<times> SQlite" where
  "table_names self =
     (case get_cursor self of
        Inl e \<Rightarrow> (Inl e, self)
      | Inr _ \<Rightarrow> (names_result (conn self) catalog_query, submit catalog_query self))"

text \<open>
  \<^verbatim>\<open>self.column_descriptions or {}\<close>: \<^verbatim>\<open>None\<close> and the empty dictionary both give the
  empty dictionary.
\<close>

definition descriptions :: "SQlite \<Rightarrow> (string \<rightharpoonup> (string \<rightharpoonup> string))" where
  "descriptions self = (case column_descriptions self of None \<Rightarrow> Map.empty | Some d \<Rightarrow> d)"

text \<open>
  \<^verbatim>\<open>"PRAGMA table_info({})".format(table_name)\<close>: the template is a constant with one
  automatic field, so the table name is inserted as it is.
\<close>

definition table_info_query :: "string \<Rightarrow> string" where
  "table_info_query table_name = ''PRAGMA table_info('' @ table_name @ '')''"

text \<open>
  The loop of \<^verbatim>\<open>format_tables_info\<close> over the table names: four entries are appended to
  \<open>info_list\<close> for each table, and an error of the per-table query ends the loop.
\<close>

fun tables_loop :: "string list \<Rightarrow> string list \<Rightarrow> SQlite \<Rightarrow> (error + string list) \<times> SQlite" where
  "tables_loop [] info_list self = (Inr info_list, self)"
| "tables_loop (table_name # rest) info_list self =
     (case rows_result (conn self) (table_info_query table_name) of
        Inl e \<Rightarrow> (Inl e, submit (table_info_query table_name) self)
      | Inr rows \<Rightarrow>
          tables_loop rest
            (info_list @
              [[],
               ''TABLE_NAME: '' @ table_name,
               TableInfo_format (TableInfo_from_rows rows)
                 (case descriptions self table_name of None \<Rightarrow> Map.empty | Some d \<Rightarrow> d),
               []])
            (submit (table_info_query table_name) self))"

definition format_tables_info :: "SQlite \<Rightarrow> (error + string) \<times> SQlite" where
  "format_tables_info self =
     (case get_cursor self of
        Inl e \<Rightarrow> (Inl e, self)
      | Inr _ \<Rightarrow>
          (case table_names self of
             (Inl e, self1) \<Rightarrow> (Inl e, self1)
           | (Inr names, self1) \<Rightarrow>
               (case tables_loop names [] self1 of
                  (Inl e, self2) \<Rightarrow> (Inl e, self2)
                | (Inr info_list, self2) \<Rightarrow>
                    (Inr (str_replace ''\<newline>'' ''\<newline># '' (str_join ''\<newline>'' info_list)),
                     self2))))"

text \<open>
  The f-string of \<^verbatim>\<open>make_prompt\<close>: its lines are indented by twelve blanks in the source,
  and the two interpolated texts are inserted as they are.
\<close>

definition prompt_template :: "string \<Rightarrow> string \<Rightarrow> string" where
  "prompt_template info q =
     ''\<newline>            '' @ info @
     ''\<newline>            # '' @ q @
     ''\<newline>            SELECT *'' @
     ''\<newline>            ''"

text \<open>
  \<^verbatim>\<open>make_prompt\<close>: the question is formatted first, so an error of \<^verbatim>\<open>str.format\<close> leaves
  before the database is read.
\<close>

definition make_prompt :: "field_ext \<Rightarrow> SQlite \<Rightarrow> string \<Rightarrow> (error + string) \<times> SQlite" where
  "make_prompt ext self query =
     (case str_format ext query [''\<newline>'', ''\<newline># ''] of
        Inl e \<Rightarrow> (Inl e, self)
      | Inr q \<Rightarrow>
          (case format_tables_info self of
             (Inl e, self1) \<Rightarrow> (Inl e, self1)
           | (Inr info, self1) \<Rightarrow> (Inr (dedent (prompt_template info q)), self1)))"

text \<open>A remote call: the request is logged, and the stub gives its outcome.\<close>

definition call :: "request \<Rightarrow> service \<Rightarrow> (error + string) \<times> service" where
  "call req svc = (respond svc req, svc\<lparr>requests := requests svc @ [req]\<rparr>)"

text \<open>The request of \<^verbatim>\<open>_translate\<close> for a draft, and \<^verbatim>\<open>_translate\<close> itself.\<close>

definition translate_request :: "string \<Rightarrow> request" where
  "translate_request sql =
     (let lines = str_split NL sql @ [[], ''The above SQL can be rewritten as follows in SQLite''];
          prompt = str_join ''\<newline>'' (map (\<lambda>line. ''# '' @ line) lines)
      in Completion ''code-davinci-002'' (prompt @ ''\<newline>\<newline>SELECT *'') 150 [''#'', '';''])"

definition private_translate :: "service \<Rightarrow> string \<Rightarrow> (error + string) \<times> service" where
  "private_translate svc sql =
     (case call (translate_request sql) svc of
        (Inl e, svc1) \<Rightarrow> (Inl e, svc1)
      | (Inr text, svc1) \<Rightarrow> (Inr (''SELECT *\<newline>'' @ text), svc1))"

text \<open>The request of \<^verbatim>\<open>_build_query\<close> for a prompt, and \<^verbatim>\<open>_build_query\<close> itself.\<close>

definition chat_request :: "string \<Rightarrow> request" where
  "chat_request p =
     ChatCompletion ''gpt-3.5-turbo-0301''
       [(''system'', ''You are helpful assistant that translates Any Language to SQL''),
        (''user'', p)]"

definition private_build_query ::
  "field_ext \<Rightarrow> SQlite \<Rightarrow> service \<Rightarrow> string \<Rightarrow> (error + string) \<times> SQlite \<times> service" where
  "private_build_query ext self svc query =
     (case make_prompt ext self query of
        (Inl e, self1) \<Rightarrow> (Inl e, self1, svc)
      | (Inr p, self1) \<Rightarrow>
          (case call (chat_request p) svc of
             (Inl e, svc1) \<Rightarrow> (Inl e, self1, svc1)
           | (Inr content, svc1) \<Rightarrow> (Inr (''SELECT *'' @ content), self1, svc1)))"

definition build_query ::
  "field_ext \<Rightarrow> SQlite \<Rightarrow> service \<Rightarrow> string \<Rightarrow> (error + string) \<times> SQlite \<times> service" where
  "build_query ext self svc query =
     (case private_build_query ext self svc query of
        (Inl e, self1, svc1) \<Rightarrow> (Inl e, self1, svc1)
      | (Inr q, self1, svc1) \<Rightarrow>
          (case private_translate svc1 q of (r, svc2) \<Rightarrow> (r, self1, svc2)))"

text \<open>
  \<^verbatim>\<open>execute\<close>: the cursor is taken first, then the query is built, and only a query that
  was built is submitted to the cursor.
\<close>

definition execute ::
  "field_ext \<Rightarrow> SQlite \<Rightarrow> service \<Rightarrow> string \<Rightarrow> (error + cursor) \<times> SQlite \<times> service" where
  "execute ext self svc query =
     (case get_cursor self of
        Inl e \<Rightarrow> (Inl e, self, svc)
      | Inr _ \<Rightarrow>
          (case build_query ext self svc query of
             (Inl e, self1, svc1) \<Rightarrow> (Inl e, self1, svc1)
           | (Inr sql, self1, svc1) \<Rightarrow>
               (case raises (conn self1) sql of
                  Some e \<Rightarrow> (Inl e, submit sql self1, svc1)
                | None \<Rightarrow> (Inr (Cursor sql), submit sql self1, svc1))))"

section \<open>A stub database\<close>

text \<open>
  The stub of the specification's examples: the catalog reports the single table
  \<^verbatim>\<open>users\<close> with the columns \<^verbatim>\<open>id INTEGER\<close> (primary key) and \<^verbatim>\<open>name TEXT\<close>, and the
  description map is empty. The not-null flag of \<open>id\<close> is a parameter: SQLite itself
  reports 0 for a column declared \<^verbatim>\<open>INTEGER PRIMARY KEY\<close>.
\<close>

definition users_conn :: "int \<Rightarrow> connection" where
  "users_conn nn =
     \<lparr>cursor_fails = None,
      names_result = (\<lambda>q. if q = catalog_query then Inr [''users''] else Inl (DatabaseError q)),
      rows_result = (\<lambda>q. if q = table_info_query ''users''
                          then Inr [(0, ''id'', ''INTEGER'', nn, DNone, 1),
                                    (1, ''name'', ''TEXT'', 0, DNone, 0)]
                          else Inl (DatabaseError q)),
      raises = (\<lambda>q. None),
      executed = []\<rparr>"

definition users_db :: "int \<Rightarrow> SQlite" where
  "users_db nn = \<lparr>conn = users_conn nn, column_descriptions = Some Map.empty, api_key = None\<rparr>"

text \<open>
  Stubs for the rest of the environment: a rendering of the unmodelled replacement
  fields (no example reaches it), a service that answers every request through a given
  function and has received no call yet, and an endpoint that is unreachable.
\<close>

definition plain_fields :: field_ext where
  "plain_fields args st k s = Inl ValueError"

definition stub_service :: "(request \<Rightarrow> error + string) \<Rightarrow> service" where
  "stub_service f = \<lparr>respond = f, requests = [], key = None\<rparr>"

definition failing_chat :: "request \<Rightarrow> error + string" where
  "failing_chat r = Inl (RemoteError ''unreachable'')"

section \<open>Facts about the string primitives\<close>

lemma str_join_Cons:
  "xs \<noteq> [] \<Longrightarrow> str_join sep (x # xs) = x @ sep @ str_join sep xs"
  by (cases xs) simp_all

lemma extend_first_not_Nil [simp]: "extend_first x ls \<noteq> []"
  by (cases ls) simp_all

lemma str_split_not_Nil [simp]: "str_split c s \<noteq> []"
  by (induction s) simp_all

lemma str_split_no_sep: "c \<notin> set s \<Longrightarrow> str_split c s = [s]"
  by (induction s) auto

lemma str_split_append_sep:
  "c \<notin> set x \<Longrightarrow> str_split c (x @ c # s) = x # str_split c s"
  by (induction x) auto

lemma str_split_join:
  "xs \<noteq> [] \<Longrightarrow> \<forall>x \<in> set xs. c \<notin> set x \<Longrightarrow> str_split c (str_join [c] xs) = xs"
proof (induction xs)
  case Nil
  then show ?case by simp
next
  case (Cons x xs)
  show ?case
  proof (cases "xs = []")
    case True
    with Cons.prems show ?thesis by (simp add: str_split_no_sep)
  next
    case False
    with Cons show ?thesis by (simp add: str_join_Cons str_split_append_sep)
  qed
qed

lemma str_join_eq_Nil: "str_join sep (x # xs) = [] \<Longrightarrow> x = []"
  by (cases xs) simp_all

lemma ColumnInfo_format_not_Nil: "ColumnInfo_format c d \<noteq> []"
  by (cases d) (auto simp: ColumnInfo_format_def Let_def)

lemma ColumnInfo_format_no_NL:
  assumes "NL \<notin> set (name c)" and "NL \<notin> set (type c)"
    and "\<And>x. d = Some x \<Longrightarrow> NL \<notin> set x"
  shows "NL \<notin> set (ColumnInfo_format c d)"
  using assms by (cases d) (auto simp: ColumnInfo_format_def Let_def)

lemma str_replace_char:
  "str_replace [c] new s = concat (map (\<lambda>x. if x = c then new else [x]) s)"
proof (induction s)
  case Nil
  show ?case by (simp add: str_replace.simps)
next
  case (Cons x xs)
  then show ?case
    by (subst str_replace.simps) auto
qed

lemma str_split_append_first:
  "c \<notin> set p \<Longrightarrow> str_split c (p @ t) = (p @ hd (str_split c t)) # tl (str_split c t)"
proof (induction p)
  case Nil
  then show ?case by simp
next
  case (Cons a p)
  then show ?case by auto
qed

lemma str_split_comment:
  assumes "c \<notin> set p"
  shows "str_split c (concat (map (\<lambda>x. if x = c then c # p else [x]) s))
           = hd (str_split c s) # map ((@) p) (tl (str_split c s))"
proof (induction s)
  case Nil
  show ?case by simp
next
  case (Cons x xs)
  obtain l ls where l: "str_split c xs = l # ls"
    by (cases "str_split c xs") simp_all
  show ?case
  proof (cases "x = c")
    case True
    then show ?thesis
      using Cons assms by (simp add: str_split_append_first l)
  next
    case False
    then show ?thesis
      using Cons by (simp add: l)
  qed
qed

lemma tables_loop_info:
  "tables_loop names acc self = (Inr r, self') \<Longrightarrow>
     \<exists>more. r = acc @ more \<and> (more = [] \<or> hd more = [])"
proof (induction names arbitrary: acc self)
  case Nil
  then show ?case by simp
next
  case (Cons t ts)
  show ?case
  proof (cases "rows_result (conn self) (table_info_query t)")
    case (Inl e)
    with Cons.prems show ?thesis by simp
  next
    case (Inr rows)
    with Cons.prems Cons.IH obtain more where
      "r = (acc @ [[], ''TABLE_NAME: '' @ t,
           TableInfo_format (TableInfo_from_rows rows)
             (case descriptions self t of None \<Rightarrow> Map.empty | Some d \<Rightarrow> d), []]) @ more"
      by fastforce
    then show ?thesis by auto
  qed
qed

lemma hd_split_join:
  "info = [] \<or> hd info = [] \<Longrightarrow> hd (str_split NL (str_join [NL] info)) = []"
proof (cases info)
  case Nil
  then show ?thesis by simp
next
  case (Cons x xs)
  assume "info = [] \<or> hd info = []"
  with Cons have "x = []" by simp
  then show ?thesis using Cons by (cases xs) simp_all
qed

section \<open>Facts about the connection\<close>

lemma submit_conn [simp]:
  "cursor_fails (conn (submit q s)) = cursor_fails (conn s)"
  "names_result (conn (submit q s)) = names_result (conn s)"
  "rows_result (conn (submit q s)) = rows_result (conn s)"
  "raises (conn (submit q s)) = raises (conn s)"
  "executed (conn (submit q s)) = executed (conn s) @ [q]"
  "column_descriptions (submit q s) = column_descriptions s"
  "api_key (submit q s) = api_key s"
  by (simp_all add: submit_def)

lemma descriptions_submit [simp]: "descriptions (submit q s) = descriptions s"
  by (simp add: descriptions_def)

lemmas schema_defs = format_tables_info_def get_cursor_def table_names_def submit_def
  catalog_query_def table_info_query_def descriptions_def TableInfo_format_def
  TableInfo_from_rows_def ColumnInfo_format_def str_replace_char

lemma users_db_info:
  "format_tables_info (users_db nn) =
     (Inr (''\<newline># TABLE_NAME: users\<newline># id INTEGER '' @ (if nn \<noteq> 0 then ''NOTNULL'' else ''NULLABLE'')
            @ ''\<newline># name TEXT NULLABLE\<newline># ''),
      (users_db nn)\<lparr>conn := (users_conn nn)\<lparr>executed :=
         [catalog_query, table_info_query ''users'']\<rparr>\<rparr>)"
  by (simp add: schema_defs users_db_def users_conn_def)

section \<open>Facts about formatting, prompts and the statement log\<close>

lemma markup_plain:
  "CHR ''{'' \<notin> set s \<Longrightarrow> CHR ''}'' \<notin> set s \<Longrightarrow> markup ext args st k s = Inr s"
  by (induction s) auto

lemma str_format_plain:
  "CHR ''{'' \<notin> set s \<Longrightarrow> CHR ''}'' \<notin> set s \<Longrightarrow> str_format ext s args = Inr s"
  by (simp add: str_format_def markup_plain)

lemmas dedent_defs = dedent_def is_blank_def margin_step_def strip_margin_def prompt_template_def

lemma users_db_prompt:
  "make_prompt ext (users_db 1) ''list the user ids'' =
     (Inr ''\<newline>\<newline># TABLE_NAME: users\<newline># id INTEGER NOTNULL\<newline># name TEXT NULLABLE\<newline># \<newline>            # list the user ids\<newline>            SELECT *\<newline>'',
      (users_db 1)\<lparr>conn := (users_conn 1)\<lparr>executed :=
         [catalog_query, table_info_query ''users'']\<rparr>\<rparr>)"
  by (simp add: make_prompt_def str_format_plain users_db_info dedent_defs)

lemma users_db_prompt_multiline:
  "make_prompt ext (users_db 1) ''a\<newline>b'' =
     (Inr ''\<newline>\<newline># TABLE_NAME: users\<newline># id INTEGER NOTNULL\<newline># name TEXT NULLABLE\<newline># \<newline>            # a\<newline>b\<newline>            SELECT *\<newline>'',
      (users_db 1)\<lparr>conn := (users_conn 1)\<lparr>executed :=
         [catalog_query, table_info_query ''users'']\<rparr>\<rparr>)"
  by (simp add: make_prompt_def str_format_plain users_db_info dedent_defs)

lemma format_examples:
  "str_format ext ''{0}'' [''\<newline>'', ''\<newline># ''] = Inr ''\<newline>''"
  "str_format ext ''{name}'' [''\<newline>'', ''\<newline># ''] = Inl (KeyError ''name'')"
  "str_format ext ''{'' [''\<newline>'', ''\<newline># ''] = Inl ValueError"
  by (simp_all add: str_format_def field_name_char_def is_digit_def get_integer_def
      PY_SSIZE_T_MAX_def)

lemma tables_loop_frame:
  "column_descriptions (snd (tables_loop names acc self)) = column_descriptions self"
  by (induction names arbitrary: acc self) (auto split: sum.splits)

lemma table_names_frame:
  "column_descriptions (snd (table_names self)) = column_descriptions self"
  by (simp add: table_names_def split: sum.splits)

lemma format_tables_info_frame:
  "column_descriptions (snd (format_tables_info self)) = column_descriptions self"
proof (cases "get_cursor self")
  case (Inl e)
  then show ?thesis by (simp add: format_tables_info_def)
next
  case (Inr u)
  obtain r1 s1 where tn: "table_names self = (r1, s1)"
    by (cases "table_names self")
  have s1: "column_descriptions s1 = column_descriptions self"
    using table_names_frame[of self] tn by simp
  show ?thesis
  proof (cases r1)
    case (Inl e)
    with Inr tn s1 show ?thesis by (simp add: format_tables_info_def)
  next
    case names: (Inr names)
    obtain r2 s2 where loop: "tables_loop names [] s1 = (r2, s2)"
      by (cases "tables_loop names [] s1")
    have "column_descriptions s2 = column_descriptions s1"
      using tables_loop_frame[of names "[]" s1] loop by simp
    with Inr tn s1 names loop show ?thesis
      by (cases r2) (simp_all add: format_tables_info_def del: tables_loop.simps)
  qed
qed

lemma make_prompt_frame:
  "column_descriptions (snd (make_prompt ext self q)) = column_descriptions self"
  using format_tables_info_frame[of self]
  by (auto simp: make_prompt_def split: sum.splits prod.splits)

lemma private_build_query_frame:
  "column_descriptions (fst (snd (private_build_query ext self svc q))) = column_descriptions self"
  using make_prompt_frame[of ext self q]
  by (auto simp: private_build_query_def split: sum.splits prod.splits)

lemma build_query_frame:
  "column_descriptions (fst (snd (build_query ext self svc q))) = column_descriptions self"
  using private_build_query_frame[of ext self svc q]
  by (auto simp: build_query_def split: sum.splits prod.splits)

lemma tables_loop_executed:
  "tables_loop names acc self = (Inr r, s') \<Longrightarrow>
     executed (conn s') = executed (conn self) @ map table_info_query names"
proof (induction names arbitrary: acc self)
  case Nil
  then show ?case by simp
next
  case (Cons t ts)
  show ?case
  proof (cases "rows_result (conn self) (table_info_query t)")
    case (Inl e)
    with Cons.prems show ?thesis by simp
  next
    case (Inr rows)
    with Cons.prems Cons.IH show ?thesis by fastforce
  qed
qed

lemma format_tables_info_executed:
  assumes "format_tables_info self = (Inr out, s')"
  shows "cursor_fails (conn self) = None \<and>
     (\<exists>names. names_result (conn self) catalog_query = Inr names \<and>
        executed (conn s') = executed (conn self) @ catalog_query # map table_info_query names)"
proof -
  from assms have c: "cursor_fails (conn self) = None"
    by (auto simp: format_tables_info_def get_cursor_def split: option.splits)
  with assms obtain names info where
    names: "names_result (conn self) catalog_query = Inr names"
    and loop: "tables_loop names [] (submit catalog_query self) = (Inr info, s')"
    by (auto simp: format_tables_info_def get_cursor_def table_names_def
        split: sum.splits prod.splits)
  from tables_loop_executed[OF loop] names c show ?thesis by simp
qed

lemma make_prompt_executed:
  assumes "make_prompt ext self q = (Inr p, s')"
  shows "cursor_fails (conn self) = None \<and>
     (\<exists>names. names_result (conn self) catalog_query = Inr names \<and>
        executed (conn s') = executed (conn self) @ catalog_query # map table_info_query names)"
proof -
  from assms obtain out where "format_tables_info self = (Inr out, s')"
    by (auto simp: make_prompt_def split: sum.splits prod.splits)
  then show ?thesis by (rule format_tables_info_executed)
qed

lemma users_db_fresh:
  "get_cursor (users_db nn) = Inr ()"
  "executed (conn (users_db nn)) = []"
  by (simp_all add: get_cursor_def users_db_def users_conn_def)

lemma users_db_execute_failing:
  "execute ext (users_db 1) (stub_service failing_chat) ''list the user ids'' =
     (Inl (RemoteError ''unreachable''),
      (users_db 1)\<lparr>conn := (users_conn 1)\<lparr>executed :=
         [catalog_query, table_info_query ''users'']\<rparr>\<rparr>,
      (stub_service failing_chat)\<lparr>requests :=
         [chat_request ''\<newline>\<newline># TABLE_NAME: users\<newline># id INTEGER NOTNULL\<newline># name TEXT NULLABLE\<newline># \<newline>            # list the user ids\<newline>            SELECT *\<newline>'']\<rparr>)"
  by (simp add: execute_def users_db_fresh build_query_def private_build_query_def
      users_db_prompt call_def stub_service_def failing_chat_def)

section \<open>Column and table formatting\<close>

text \<open>
  C5. A column formatted without a description (\<^verbatim>\<open>None\<close>), or with the empty
  description, is exactly name, type and nullability separated by single blanks, so it
  ends with the nullability word and carries no description suffix. Formatted with a
  non-empty description \<open>x\<close> it is that same line followed by \<open>description: x\<close>, which
  it therefore ends with.
\<close>

theorem ColumnInfo_format_description:
  "ColumnInfo_format c None =
     name c @ '' '' @ type c @ '' '' @ (if notnull c \<noteq> 0 then ''NOTNULL'' else ''NULLABLE'')
   \<and> ColumnInfo_format c (Some []) = ColumnInfo_format c None
   \<and> (x \<noteq> [] \<longrightarrow>
        ColumnInfo_format c (Some x) = ColumnInfo_format c None @ '' description: '' @ x
        \<and> suffix (''description: '' @ x) (ColumnInfo_format c (Some x)))"
  by (simp add: ColumnInfo_format_def suffix_def)

theorem ColumnInfo_format_description_witness:
  "ColumnInfo_format \<lparr>cid = 0, name = ''id'', type = ''INTEGER'', notnull = 1,
       dflt_value = DNone, pk = 1\<rparr> (Some ''x'')
     = ''id INTEGER NOTNULL description: x''
   \<and> ColumnInfo_format \<lparr>cid = 0, name = ''id'', type = ''INTEGER'', notnull = 1,
       dflt_value = DNone, pk = 1\<rparr> None = ''id INTEGER NOTNULL''"
  using ColumnInfo_format_description
    [of "\<lparr>cid = 0, name = ''id'', type = ''INTEGER'', notnull = 1,
          dflt_value = DNone, pk = 1\<rparr>" "''x''"]
  by simp

text \<open>
  C6, as the specification states it, fails: a description is free text, and one that
  holds a newline makes the single column of this table come out as two lines.
\<close>

theorem TableInfo_format_lines_counterexample:
  "length (str_split NL (TableInfo_format
      \<lparr>columns = [\<lparr>cid = 0, name = ''id'', type = ''INTEGER'', notnull = 1,
                   dflt_value = DNone, pk = 1\<rparr>]\<rparr>
      [''id'' \<mapsto> ''a\<newline>b'']))
   \<noteq> length (columns
      \<lparr>columns = [\<lparr>cid = 0, name = ''id'', type = ''INTEGER'', notnull = 1,
                   dflt_value = DNone, pk = 1\<rparr>]\<rparr>)"
  by (simp add: TableInfo_format_def ColumnInfo_format_def)

text \<open>
  C6, amended. When no column name, column type or looked-up description holds a
  newline, the lines of \<^verbatim>\<open>table.format(map)\<close> are exactly the formatted columns, one per
  column and in column order (for a table with at least one column; with none the
  result is the empty string). Whatever the names and descriptions hold, the result is
  not empty when the table has a column.
\<close>

theorem TableInfo_format_lines:
  "(columns t \<noteq> [] \<longrightarrow> TableInfo_format t m \<noteq> [])
   \<and> (columns t = [] \<longrightarrow> TableInfo_format t m = [])
   \<and> (columns t \<noteq> [] \<longrightarrow>
        (\<forall>c \<in> set (columns t). NL \<notin> set (name c) \<and> NL \<notin> set (type c)
            \<and> (\<forall>x. m (name c) = Some x \<longrightarrow> NL \<notin> set x)) \<longrightarrow>
        str_split NL (TableInfo_format t m)
          = map (\<lambda>c. ColumnInfo_format c (m (name c))) (columns t)
        \<and> length (str_split NL (TableInfo_format t m)) = length (columns t))"
proof (intro conjI impI)
  assume ne: "columns t \<noteq> []"
  then obtain c cs where cs: "columns t = c # cs"
    by (cases "columns t") auto
  show "TableInfo_format t m \<noteq> []"
    using str_join_eq_Nil[of "[NL]" "ColumnInfo_format c (m (name c))"]
      ColumnInfo_format_not_Nil[of c "m (name c)"]
    by (auto simp: TableInfo_format_def cs)
next
  assume "columns t = []"
  then show "TableInfo_format t m = []"
    by (simp add: TableInfo_format_def)
next
  assume ne: "columns t \<noteq> []"
    and nl: "\<forall>c \<in> set (columns t). NL \<notin> set (name c) \<and> NL \<notin> set (type c)
            \<and> (\<forall>x. m (name c) = Some x \<longrightarrow> NL \<notin> set x)"
  let ?ls = "map (\<lambda>c. ColumnInfo_format c (m (name c))) (columns t)"
  have "\<forall>l \<in> set ?ls. NL \<notin> set l"
  proof
    fix l assume "l \<in> set ?ls"
    then obtain c where c: "c \<in> set (columns t)"
      and l: "l = ColumnInfo_format c (m (name c))"
      by auto
    from nl c have "NL \<notin> set (name c)" "NL \<notin> set (type c)"
      "\<And>x. m (name c) = Some x \<Longrightarrow> NL \<notin> set x"
      by auto
    then show "NL \<notin> set l"
      unfolding l by (rule ColumnInfo_format_no_NL)
  qed
  moreover have "?ls \<noteq> []"
    using ne by simp
  ultimately show lines: "str_split NL (TableInfo_format t m) = ?ls"
    unfolding TableInfo_format_def by (rule str_split_join[rotated])
  show "length (str_split NL (TableInfo_format t m)) = length (columns t)"
    by (simp add: lines)
qed

theorem TableInfo_format_lines_witness:
  "str_split NL (TableInfo_format
      \<lparr>columns = [\<lparr>cid = 0, name = ''id'', type = ''INTEGER'', notnull = 1,
                   dflt_value = DNone, pk = 1\<rparr>,
                  \<lparr>cid = 1, name = ''name'', type = ''TEXT'', notnull = 0,
                   dflt_value = DNone, pk = 0\<rparr>]\<rparr>
      [''name'' \<mapsto> ''full name''])
   = [''id INTEGER NOTNULL'', ''name TEXT NULLABLE description: full name'']"
  using TableInfo_format_lines
    [of "\<lparr>columns = [\<lparr>cid = 0, name = ''id'', type = ''INTEGER'', notnull = 1,
                       dflt_value = DNone, pk = 1\<rparr>,
                      \<lparr>cid = 1, name = ''name'', type = ''TEXT'', notnull = 0,
                       dflt_value = DNone, pk = 0\<rparr>]\<rparr>"
        "[''name'' \<mapsto> ''full name'']"]
  by (simp add: ColumnInfo_format_def)

section \<open>The schema block\<close>

text \<open>
  C1, as the specification states it, fails: the block starts with a newline, so its
  first line is empty and carries no comment marker. For the stub database:
\<close>

theorem format_tables_info_first_line_counterexample:
  "fst (format_tables_info (users_db 1))
     = Inr ''\<newline># TABLE_NAME: users\<newline># id INTEGER NOTNULL\<newline># name TEXT NULLABLE\<newline># ''
   \<and> \<not> prefix ''# '' (hd (str_split NL (projr (fst (format_tables_info (users_db 1))))))"
  by (simp add: users_db_info)

text \<open>
  C1, amended. Whenever \<^verbatim>\<open>format_tables_info()\<close> returns, the first line of the block
  is empty and every later line, the blank separator lines included, starts with the
  comment marker \<open># \<close>. This holds for every schema and every description map.
\<close>

theorem format_tables_info_comment_lines:
  assumes "fst (format_tables_info self) = Inr out"
  shows "hd (str_split NL out) = [] \<and> (\<forall>l \<in> set (tl (str_split NL out)). prefix ''# '' l)"
proof -
  from assms obtain names self1 info self2 where
    loop: "tables_loop names [] self1 = (Inr info, self2)"
    and out: "out = str_replace ''\<newline>'' ''\<newline># '' (str_join ''\<newline>'' info)"
    by (auto simp: format_tables_info_def split: sum.splits prod.splits)
  from tables_loop_info[OF loop] have info: "info = [] \<or> hd info = []"
    by auto
  have split: "str_split NL out = hd (str_split NL (str_join [NL] info))
      # map ((@) ''# '') (tl (str_split NL (str_join [NL] info)))"
    unfolding out str_replace_char by (rule str_split_comment) simp
  show ?thesis
    using hd_split_join[OF info] by (auto simp: split)
qed

theorem format_tables_info_comment_lines_witness:
  "fst (format_tables_info (users_db 1))
     = Inr ''\<newline># TABLE_NAME: users\<newline># id INTEGER NOTNULL\<newline># name TEXT NULLABLE\<newline># ''
   \<and> str_split NL ''\<newline># TABLE_NAME: users\<newline># id INTEGER NOTNULL\<newline># name TEXT NULLABLE\<newline># ''
     = ['''', ''# TABLE_NAME: users'', ''# id INTEGER NOTNULL'', ''# name TEXT NULLABLE'', ''# '']
   \<and> list_all (prefix ''# '') (tl (str_split NL
        ''\<newline># TABLE_NAME: users\<newline># id INTEGER NOTNULL\<newline># name TEXT NULLABLE\<newline># ''))"
  using format_tables_info_comment_lines[of "users_db 1"
     "''\<newline># TABLE_NAME: users\<newline># id INTEGER NOTNULL\<newline># name TEXT NULLABLE\<newline># ''"]
  by (simp add: users_db_info)

text \<open>
  C4, as the specification states it, fails on two counts. The nullability word follows
  the not-null flag of the row and not the primary-key flag, so with the flags that
  SQLite reports for \<^verbatim>\<open>id INTEGER PRIMARY KEY\<close> the column is shown as \<open>NULLABLE\<close>; and
  whatever the flag, the lines of the block carry the comment marker, so neither literal
  line of the claim is a line of the output.
\<close>

theorem format_tables_info_users_counterexample:
  "fst (format_tables_info (users_db 0))
     = Inr ''\<newline># TABLE_NAME: users\<newline># id INTEGER NULLABLE\<newline># name TEXT NULLABLE\<newline># ''
   \<and> ''id INTEGER NOTNULL'' \<notin> set (str_split NL (projr (fst (format_tables_info (users_db 0)))))
   \<and> ''id INTEGER NOTNULL'' \<notin> set (str_split NL (projr (fst (format_tables_info (users_db 1)))))
   \<and> ''name TEXT NULLABLE'' \<notin> set (str_split NL (projr (fst (format_tables_info (users_db 1)))))"
  by (simp add: users_db_info)

text \<open>
  C4, amended. For a database whose catalog reports the one table \<^verbatim>\<open>users\<close>, whose
  column rows are \<open>id INTEGER\<close> with a not-null flag that is set and \<open>name TEXT\<close> with
  the flag 0, and with no descriptions for that table, the block is exactly the text
  below; its lines include \<open># id INTEGER NOTNULL\<close> and \<open># name TEXT NULLABLE\<close>.
\<close>

theorem format_tables_info_users:
  assumes "cursor_fails (conn self) = None"
    and "names_result (conn self) catalog_query = Inr [''users'']"
    and "rows_result (conn self) (table_info_query ''users'')
           = Inr [(c1, ''id'', ''INTEGER'', n1, d1, p1), (c2, ''name'', ''TEXT'', 0, d2, p2)]"
    and "n1 \<noteq> 0"
    and "descriptions self ''users'' = None"
  shows "fst (format_tables_info self)
     = Inr ''\<newline># TABLE_NAME: users\<newline># id INTEGER NOTNULL\<newline># name TEXT NULLABLE\<newline># ''
   \<and> ''# id INTEGER NOTNULL'' \<in> set (str_split NL (projr (fst (format_tables_info self))))
   \<and> ''# name TEXT NULLABLE'' \<in> set (str_split NL (projr (fst (format_tables_info self))))"
proof -
  have names: "table_names self = (Inr [''users''], submit catalog_query self)"
    using assms(1,2) by (simp add: table_names_def get_cursor_def)
  have loop: "tables_loop [''users''] [] (submit catalog_query self)
      = (Inr [[], ''TABLE_NAME: users'', ''id INTEGER NOTNULL\<newline>name TEXT NULLABLE'', []],
         submit (table_info_query ''users'') (submit catalog_query self))"
    using assms(3-5)
    by (simp add: TableInfo_format_def TableInfo_from_rows_def ColumnInfo_format_def)
  have "fst (format_tables_info self)
     = Inr ''\<newline># TABLE_NAME: users\<newline># id INTEGER NOTNULL\<newline># name TEXT NULLABLE\<newline># ''"
    using assms(1)
    by (simp add: format_tables_info_def get_cursor_def names loop str_replace_char
        del: tables_loop.simps)
  then show ?thesis by simp
qed

theorem format_tables_info_users_witness:
  "cursor_fails (conn (users_db 1)) = None
   \<and> names_result (conn (users_db 1)) catalog_query = Inr [''users'']
   \<and> rows_result (conn (users_db 1)) (table_info_query ''users'')
           = Inr [(0, ''id'', ''INTEGER'', 1, DNone, 1), (1, ''name'', ''TEXT'', 0, DNone, 0)]
   \<and> descriptions (users_db 1) ''users'' = None
   \<and> ''# id INTEGER NOTNULL'' \<in> set (str_split NL (projr (fst (format_tables_info (users_db 1)))))"
  using format_tables_info_users[of "users_db 1" 0 1 DNone 1 1 DNone 0]
  by (simp add: users_db_def users_conn_def descriptions_def)

section \<open>Prompt assembly\<close>

text \<open>
  C2. The specification asks for a prompt that ends with the literal line \<open>SELECT *\<close>
  right below the question with each of its lines prefixed by the comment marker. The
  code calls \<^verbatim>\<open>query.format("\n", "\n# ")\<close> where the schema block calls
  \<^verbatim>\<open>replace("\n", "\n# ")\<close>, so the lines of a question are not prefixed; and the
  lines of the schema block and of the question that start at the left edge leave
  \<^verbatim>\<open>dedent\<close> without a margin to remove, so the template keeps its indentation. For
  the stub database and the question \<open>a\<close>, newline, \<open>b\<close> the prompt is the text below:
  the second line of the question is the bare line \<open>b\<close>, and the last line is
  \<open>SELECT *\<close> behind twelve blanks.
\<close>

theorem make_prompt_multiline_question:
  "fst (make_prompt plain_fields (users_db 1) ''a\<newline>b'')
     = Inr ''\<newline>\<newline># TABLE_NAME: users\<newline># id INTEGER NOTNULL\<newline># name TEXT NULLABLE\<newline># \<newline>            # a\<newline>b\<newline>            SELECT *\<newline>''
   \<and> str_split NL (projr (fst (make_prompt plain_fields (users_db 1) ''a\<newline>b'')))
     = ['''', '''', ''# TABLE_NAME: users'', ''# id INTEGER NOTNULL'', ''# name TEXT NULLABLE'',
        ''# '', ''            # a'', ''b'', ''            SELECT *'', '''']"
  by (simp add: users_db_prompt_multiline)

text \<open>
  C10. \<^verbatim>\<open>make_prompt\<close> reads the question as a format string with the positional
  arguments newline and newline-marker. The question \<open>{0}\<close> is therefore replaced by a
  newline before it is embedded, the question \<open>{name}\<close> raises \<^verbatim>\<open>KeyError\<close> and the
  question \<open>{\<close> raises \<^verbatim>\<open>ValueError\<close>; the two errors leave before the database is
  read, so the object is unchanged.
\<close>

theorem make_prompt_not_total:
  "str_format ext ''{0}'' [''\<newline>'', ''\<newline># ''] = Inr ''\<newline>''
   \<and> fst (make_prompt ext (users_db 1) ''{0}'')
       = Inr ''\<newline>\<newline># TABLE_NAME: users\<newline># id INTEGER NOTNULL\<newline># name TEXT NULLABLE\<newline># \<newline>            # \<newline>\<newline>            SELECT *\<newline>''
   \<and> make_prompt ext self ''{name}'' = (Inl (KeyError ''name''), self)
   \<and> make_prompt ext self ''{'' = (Inl ValueError, self)"
  by (simp add: make_prompt_def format_examples users_db_info dedent_defs)

section \<open>The remote calls\<close>

text \<open>
  C7. When the prompt has been assembled and the chat endpoint answers it with the
  content \<open>c\<close>, \<^verbatim>\<open>_build_query\<close> returns \<open>SELECT *\<close> followed by \<open>c\<close>: the content is
  appended to the literal prefix and does not replace it. For the content
  \<open> SELECT id FROM users\<close> the result is \<open>SELECT * SELECT id FROM users\<close>.
\<close>

theorem private_build_query_concatenates:
  "fst (make_prompt ext self q) = Inr p \<Longrightarrow> respond svc (chat_request p) = Inr c \<Longrightarrow>
     fst (private_build_query ext self svc q) = Inr (''SELECT *'' @ c)"
  by (auto simp: private_build_query_def call_def split: sum.splits prod.splits)

theorem private_build_query_concatenates_witness:
  "fst (make_prompt plain_fields (users_db 1) ''list the user ids'')
     = Inr ''\<newline>\<newline># TABLE_NAME: users\<newline># id INTEGER NOTNULL\<newline># name TEXT NULLABLE\<newline># \<newline>            # list the user ids\<newline>            SELECT *\<newline>''
   \<and> respond (stub_service (\<lambda>r. Inr '' SELECT id FROM users''))
       (chat_request ''\<newline>\<newline># TABLE_NAME: users\<newline># id INTEGER NOTNULL\<newline># name TEXT NULLABLE\<newline># \<newline>            # list the user ids\<newline>            SELECT *\<newline>'')
     = Inr '' SELECT id FROM users''
   \<and> fst (private_build_query plain_fields (users_db 1)
        (stub_service (\<lambda>r. Inr '' SELECT id FROM users'')) ''list the user ids'')
     = Inr ''SELECT * SELECT id FROM users''"
  using private_build_query_concatenates[of plain_fields "users_db 1" "''list the user ids''"
      "''\<newline>\<newline># TABLE_NAME: users\<newline># id INTEGER NOTNULL\<newline># name TEXT NULLABLE\<newline># \<newline>            # list the user ids\<newline>            SELECT *\<newline>''"
      "stub_service (\<lambda>r. Inr '' SELECT id FROM users'')" "'' SELECT id FROM users''"]
  by (simp add: users_db_prompt stub_service_def)

text \<open>
  C8. When the completion endpoint answers the request of \<^verbatim>\<open>_translate\<close> with the text
  \<open>t\<close>, \<^verbatim>\<open>_translate\<close> returns \<open>SELECT *\<close>, a newline and then \<open>t\<close> as it is; the stub
  of the specification answers \<open> WHERE name='a'\<close> followed by a newline.
\<close>

theorem private_translate_prefix:
  "respond svc (translate_request sql) = Inr t \<Longrightarrow>
     fst (private_translate svc sql) = Inr (''SELECT *\<newline>'' @ t)"
  by (simp add: private_translate_def call_def)

theorem private_translate_prefix_witness:
  "respond (stub_service (\<lambda>r. Inr '' WHERE name='a'\<newline>''))
       (translate_request ''SELECT * FROM users'') = Inr '' WHERE name='a'\<newline>''
   \<and> fst (private_translate (stub_service (\<lambda>r. Inr '' WHERE name='a'\<newline>''))
       ''SELECT * FROM users'') = Inr ''SELECT *\<newline> WHERE name='a'\<newline>''"
  using private_translate_prefix[of "stub_service (\<lambda>r. Inr '' WHERE name='a'\<newline>'')"
      "''SELECT * FROM users''" "'' WHERE name='a'\<newline>''"]
  by (simp add: stub_service_def)

text \<open>
  C3, as the specification states it, fails: \<^verbatim>\<open>execute\<close> assembles the prompt before
  the first remote call, and that reads the schema through the connection. With an
  unreachable chat endpoint the error comes back, and the connection, fresh before the
  call, has run the catalog query and one \<^verbatim>\<open>PRAGMA table_info\<close>.
\<close>

theorem execute_remote_failure_counterexample:
  "fst (execute plain_fields (users_db 1) (stub_service failing_chat) ''list the user ids'')
     = Inl (RemoteError ''unreachable'')
   \<and> executed (conn (users_db 1)) = []
   \<and> executed (conn (fst (snd (execute plain_fields (users_db 1) (stub_service failing_chat)
        ''list the user ids''))))
     = [''SELECT name FROM sqlite_master WHERE type = \"table\"'', ''PRAGMA table_info(users)'']"
  by (simp add: users_db_execute_failing users_db_fresh catalog_query_def
      table_info_query_def)

text \<open>
  C3, amended. If the prompt has been assembled and either remote call raises the error
  \<open>e\<close>, then \<^verbatim>\<open>execute\<close> returns exactly \<open>e\<close>; the object is left as prompt assembly
  left it, so the only statements run against the database are the schema queries of
  prompt assembly (the catalog query, then one \<^verbatim>\<open>PRAGMA table_info\<close> per table) and no
  generated query is submitted; and each endpoint has been called at most once, the
  completion endpoint only after the chat endpoint has answered.
\<close>

theorem execute_remote_failure:
  assumes "make_prompt ext self q = (Inr p, self1)"
    and "respond svc (chat_request p) = Inl e
         \<or> (\<exists>c. respond svc (chat_request p) = Inr c
               \<and> respond svc (translate_request (''SELECT *'' @ c)) = Inl e)"
  shows "fst (execute ext self svc q) = Inl e
     \<and> fst (snd (execute ext self svc q)) = self1
     \<and> (\<exists>names. names_result (conn self) catalog_query = Inr names
          \<and> executed (conn self1)
              = executed (conn self) @ catalog_query # map table_info_query names)
     \<and> requests (snd (snd (execute ext self svc q)))
         = requests svc @ chat_request p #
             (case respond svc (chat_request p) of
                Inl x \<Rightarrow> []
              | Inr c \<Rightarrow> [translate_request (''SELECT *'' @ c)])"
proof -
  from make_prompt_executed[OF assms(1)] have
    c: "get_cursor self = Inr ()"
    and log: "\<exists>names. names_result (conn self) catalog_query = Inr names
          \<and> executed (conn self1)
              = executed (conn self) @ catalog_query # map table_info_query names"
    by (simp_all add: get_cursor_def)
  from assms(2) have "execute ext self svc q
      = (Inl e, self1, svc\<lparr>requests := requests svc @ chat_request p #
             (case respond svc (chat_request p) of
                Inl x \<Rightarrow> []
              | Inr c \<Rightarrow> [translate_request (''SELECT *'' @ c)])\<rparr>)"
    by (auto simp: execute_def c build_query_def private_build_query_def assms(1)
        private_translate_def call_def)
  with log show ?thesis by simp
qed

theorem execute_remote_failure_witness:
  "make_prompt plain_fields (users_db 1) ''list the user ids''
     = (Inr ''\<newline>\<newline># TABLE_NAME: users\<newline># id INTEGER NOTNULL\<newline># name TEXT NULLABLE\<newline># \<newline>            # list the user ids\<newline>            SELECT *\<newline>'',
        (users_db 1)\<lparr>conn := (users_conn 1)\<lparr>executed :=
           [catalog_query, table_info_query ''users'']\<rparr>\<rparr>)
   \<and> respond (stub_service failing_chat)
       (chat_request ''\<newline>\<newline># TABLE_NAME: users\<newline># id INTEGER NOTNULL\<newline># name TEXT NULLABLE\<newline># \<newline>            # list the user ids\<newline>            SELECT *\<newline>'')
     = Inl (RemoteError ''unreachable'')
   \<and> fst (execute plain_fields (users_db 1) (stub_service failing_chat) ''list the user ids'')
     = Inl (RemoteError ''unreachable'')
   \<and> requests (snd (snd (execute plain_fields (users_db 1) (stub_service failing_chat)
        ''list the user ids'')))
     = [chat_request ''\<newline>\<newline># TABLE_NAME: users\<newline># id INTEGER NOTNULL\<newline># name TEXT NULLABLE\<newline># \<newline>            # list the user ids\<newline>            SELECT *\<newline>'']"
  using execute_remote_failure[of plain_fields "users_db 1" "''list the user ids''"
      "''\<newline>\<newline># TABLE_NAME: users\<newline># id INTEGER NOTNULL\<newline># name TEXT NULLABLE\<newline># \<newline>            # list the user ids\<newline>            SELECT *\<newline>''"
      "(users_db 1)\<lparr>conn := (users_conn 1)\<lparr>executed :=
           [catalog_query, table_info_query ''users'']\<rparr>\<rparr>"
      "stub_service failing_chat" "RemoteError ''unreachable''"]
  by (simp add: users_db_prompt stub_service_def failing_chat_def)

section \<open>The description map\<close>

text \<open>
  C9. Every operation that returns the object returns it with the field
  \<open>column_descriptions\<close> as it was: \<^verbatim>\<open>table_names\<close>, \<^verbatim>\<open>format_tables_info\<close>,
  \<^verbatim>\<open>make_prompt\<close>, \<^verbatim>\<open>build_query\<close> and \<^verbatim>\<open>execute\<close>, whatever the database and the
  service answer. \<^verbatim>\<open>descriptions\<close> only reads the field.
\<close>

theorem column_descriptions_never_mutated:
  "column_descriptions (snd (table_names self)) = column_descriptions self
   \<and> column_descriptions (snd (format_tables_info self)) = column_descriptions self
   \<and> column_descriptions (snd (make_prompt ext self q)) = column_descriptions self
   \<and> column_descriptions (fst (snd (build_query ext self svc q))) = column_descriptions self
   \<and> column_descriptions (fst (snd (execute ext self svc q))) = column_descriptions self"
proof -
  have "column_descriptions (fst (snd (execute ext self svc q))) = column_descriptions self"
    using build_query_frame[of ext self svc q]
    by (auto simp: execute_def split: sum.splits prod.splits option.splits)
  then show ?thesis
    by (simp add: table_names_frame format_tables_info_frame make_prompt_frame
        build_query_frame)
qed

end
